theory Spec2Isabelle
  imports Main
begin

section \<open>Data model\<close>

text \<open>
  The program reads four keys of a feed entry: \<open>id\<close>, \<open>title\<close>, \<open>summary\<close> and
  \<open>authors\<close>, the last one a list of dictionaries that carry a \<open>name\<close>. An entry
  of \<open>feedparser\<close> is a dictionary with more keys than these; \<open>other_keys\<close> holds
  them. Entries are compared with Python's \<open>in\<close> on lists, which is equality of the
  whole dictionary; the records below are compared the same way, field by field.
\<close>

record author =
  name :: string

record entry =
  id_entry :: string
  title :: string
  summary :: string
  authors :: "author list"
  other_keys :: "(string \<times> string) list"

text \<open>
  \<open>main\<close> builds the dictionary \<open>{"authors": ..., "article": ...}\<close> that
  \<open>get_articles\<close> reads.
\<close>

record buzzwords =
  bw_authors :: "string list"
  bw_article :: "string list"

text \<open>One element of the list that \<open>load_config\<close> returns.\<close>

record update =
  category :: "string list"
  chat_id :: string
  upd_buzzwords :: "string list"
  upd_authors :: "string list"

text \<open>
  The parsed configuration file as \<open>configparser\<close> presents it: the names of the
  sections in file order (\<open>config.sections()\<close>) and the options of each section
  (\<open>config[section]\<close>). An option of a section is there or not (\<open>key in section\<close>);
  reading one that is there (\<open>section[key]\<close>) interpolates its value, which gives a
  string or, for a value such as \<open>100% graphs\<close>, raises an interpolation error.
\<close>

datatype stored = Value string | BadInterpolation

record config =
  sections :: "string list"
  options :: "string \<Rightarrow> (string \<rightharpoonup> stored)"

text \<open>
  The exceptions: the three that \<open>load_config\<close> raises itself, those of a failed
  lookup or index, those of \<open>configparser\<close> when it reads the file or an option (the
  name of the option), and the one of \<open>telebot.TeleBot\<close> on a token that it refuses.
\<close>

datatype error =
  NoBotSection
  | NoToken
  | IncompleteSection string
  | KeyError string
  | IndexError
  | InterpolationError string
  | ParsingError
  | ValueError

text \<open>What the program hands to \<open>print\<close>.\<close>

datatype printed =
  PStr string
  | PArticles "entry list"
  | PConfig string "update list"
  | PBot string

text \<open>
  The world outside the process: the categories fetched from the feed so far, the
  messages handed to the bot (destination and text) and the standard output.
\<close>

record world =
  fetches :: "string list"
  sent :: "(string \<times> string) list"
  stdout :: "printed list"

datatype weekday =
  Monday | Tuesday | Wednesday | Thursday | Friday | Saturday | Sunday

record args =
  config_path :: "string option"
  quiet :: bool

section \<open>Library functions of Python used by the program\<close>

text \<open>\<open>str.split(sep)\<close> for a separator of one character.\<close>

fun split :: "char \<Rightarrow> string \<Rightarrow> string list" where
  "split sep [] = [[]]"
| "split sep (c # cs) =
     (if c = sep then [] # split sep cs
      else (case split sep cs of
              [] \<Rightarrow> [[c]]
            | w # ws \<Rightarrow> (c # w) # ws))"

text \<open>
  \<open>str.replace(old, new)\<close>: the occurrences of \<open>old\<close> found in one scan from the
  left, none overlapping another, are replaced by \<open>new\<close>. An empty \<open>old\<close> puts
  \<open>new\<close> before every character and at the end.
\<close>

function replace :: "string \<Rightarrow> string \<Rightarrow> string \<Rightarrow> string" where
  "replace old new s =
     (if old = [] then new @ concat (map (\<lambda>c. c # new) s)
      else if s = [] then []
      else if take (length old) s = old
        then new @ replace old new (drop (length old) s)
      else hd s # replace old new (tl s))"
  by pat_completeness auto
termination
  by (relation "measure (\<lambda>(old, new, s). length s)") auto

declare replace.simps [simp del]

text \<open>\<open>str(n)\<close> for a length: the decimal digits of a natural number.\<close>

definition digit :: "nat \<Rightarrow> char" where
  "digit d = ''0123456789'' ! d"

function str_nat :: "nat \<Rightarrow> string" where
  "str_nat n = (if n < 10 then [digit n] else str_nat (n div 10) @ [digit (n mod 10)])"
  by pat_completeness auto
termination
  by (relation "measure (\<lambda>n. n)") auto

declare str_nat.simps [simp del]

text \<open>\<open>date.strftime('%A')\<close>: the English name of the day.\<close>

fun strftime_A :: "weekday \<Rightarrow> string" where
  "strftime_A Monday = ''Monday''"
| "strftime_A Tuesday = ''Tuesday''"
| "strftime_A Wednesday = ''Wednesday''"
| "strftime_A Thursday = ''Thursday''"
| "strftime_A Friday = ''Friday''"
| "strftime_A Saturday = ''Saturday''"
| "strftime_A Sunday = ''Sunday''"

section \<open>get_articles\<close>

text \<open>
  \<open>fuzz.partial_ratio\<close> belongs to the library \<open>fuzzywuzzy\<close>; the program is
  modelled for any scoring function. It is called on two strings (\<open>pr\<close>) and on a
  string and the author list of an entry (\<open>pra\<close>); what the library makes of a list in
  the place of a string is left to \<open>pra\<close>. \<open>feedparser.parse\<close> is the
  function \<open>feed\<close> from a category to the entries of its feed; it returns an empty
  list of entries when the feed cannot be read.
\<close>

text \<open>The guarded \<open>res.append(entry)\<close>.\<close>

definition append_new :: "entry \<Rightarrow> entry list \<Rightarrow> entry list" where
  "append_new e res = (if e \<notin> set res then res @ [e] else res)"

text \<open>The loop over \<open>buzzwords["article"]\<close> for one entry.\<close>

fun scan_buzzwords ::
  "(string \<Rightarrow> string \<Rightarrow> int) \<Rightarrow> entry \<Rightarrow> string list \<Rightarrow> entry list \<Rightarrow> entry list" where
  "scan_buzzwords pr e [] res = res"
| "scan_buzzwords pr e (buzzword # rest) res =
     scan_buzzwords pr e rest
       (if pr buzzword (title e) > 90 \<or> pr buzzword (summary e) > 90
        then append_new e res else res)"

text \<open>The loop over \<open>buzzwords["authors"]\<close> for one entry.\<close>

fun scan_authors ::
  "(string \<Rightarrow> author list \<Rightarrow> int) \<Rightarrow> entry \<Rightarrow> string list \<Rightarrow> entry list \<Rightarrow> entry list" where
  "scan_authors pra e [] res = res"
| "scan_authors pra e (a # rest) res =
     scan_authors pra e rest
       (if pra a (authors e) > 90 then append_new e res else res)"

text \<open>The loop over \<open>news_feed.entries\<close>, with the result list \<open>res\<close> carried along.\<close>

fun scan_entries ::
  "(string \<Rightarrow> string \<Rightarrow> int) \<Rightarrow> (string \<Rightarrow> author list \<Rightarrow> int) \<Rightarrow> buzzwords
    \<Rightarrow> entry list \<Rightarrow> entry list \<Rightarrow> entry list" where
  "scan_entries pr pra bw [] res = res"
| "scan_entries pr pra bw (e # es) res =
     scan_entries pr pra bw es
       (scan_authors pra e (bw_authors bw) (scan_buzzwords pr e (bw_article bw) res))"

definition get_articles ::
  "(string \<Rightarrow> string \<Rightarrow> int) \<Rightarrow> (string \<Rightarrow> author list \<Rightarrow> int) \<Rightarrow> (string \<Rightarrow> entry list)
    \<Rightarrow> string \<Rightarrow> buzzwords \<Rightarrow> world \<Rightarrow> entry list \<times> world" where
  "get_articles pr pra feed cat bw w =
     (scan_entries pr pra bw (feed cat) [],
      w\<lparr>fetches := fetches w @ [cat]\<rparr>)"

section \<open>send_articles\<close>

text \<open>
  \<open>bot.send_message(chat_id, text=...)\<close> appends the message to the messages sent;
  what the network does with it is outside the program.
\<close>

definition send_message :: "string \<Rightarrow> string \<Rightarrow> world \<Rightarrow> world" where
  "send_message cid text w = w\<lparr>sent := sent w @ [(cid, text)]\<rparr>"

definition print_out :: "printed \<Rightarrow> world \<Rightarrow> world" where
  "print_out p w = w\<lparr>stdout := stdout w @ [p]\<rparr>"

text \<open>The loop \<open>for entry in results\<close> that merges one category into \<open>articles\<close>.\<close>

fun merge_results :: "entry list \<Rightarrow> entry list \<Rightarrow> entry list" where
  "merge_results [] articles = articles"
| "merge_results (e # results) articles = merge_results results (append_new e articles)"

text \<open>The loop \<open>for category in categories\<close>.\<close>

fun collect ::
  "(string \<Rightarrow> string \<Rightarrow> int) \<Rightarrow> (string \<Rightarrow> author list \<Rightarrow> int) \<Rightarrow> (string \<Rightarrow> entry list)
    \<Rightarrow> string list \<Rightarrow> buzzwords \<Rightarrow> entry list \<Rightarrow> world \<Rightarrow> entry list \<times> world" where
  "collect pr pra feed [] bw articles w = (articles, w)"
| "collect pr pra feed (cat # cats) bw articles w =
     (case get_articles pr pra feed cat bw w of
        (results, w') \<Rightarrow> collect pr pra feed cats bw (merge_results results articles) w')"

definition nothing_text :: string where
  "nothing_text = ''I scraped the arXiv RSS but found nothing of interest for you. Sorry.''"

definition found_text :: "nat \<Rightarrow> string" where
  "found_text n =
     ''You are going to be happy. I found '' @ str_nat n @ '' article(s) of potential interest.''"

definition processed_summary :: "entry \<Rightarrow> string" where
  "processed_summary article =
     replace ''</p>'' [] (replace ''<p>'' [] (replace [CHR 0x0A] '' '' (summary article)))"

text \<open>
  The loop \<open>for article in articles\<close>. The summary is cleaned and printed first; the
  text of the message indexes \<open>article.authors[0]\<close>, which raises on an empty list
  before anything is sent for that article.
\<close>

fun send_each :: "string \<Rightarrow> entry list \<Rightarrow> world \<Rightarrow> (error + unit) \<times> world" where
  "send_each cid [] w = (Inr (), w)"
| "send_each cid (article # rest) w =
     (let w1 = print_out (PStr (processed_summary article)) w
      in case authors article of
           [] \<Rightarrow> (Inl IndexError, w1)
         | first # _ \<Rightarrow>
             send_each cid rest
               (send_message cid
                  (''<strong>Title</strong>: '' @ title article @
                   [CHR 0x0A] @ ''<strong>Authors</strong>: '' @ name first @
                   [CHR 0x0A] @ ''<strong>Link</strong>: '' @ id_entry article @
                   [CHR 0x0A] @ ''<strong>Abstract:</strong>'' @
                   [CHR 0x0A] @ processed_summary article)
                  w1))"

definition send_articles ::
  "(string \<Rightarrow> string \<Rightarrow> int) \<Rightarrow> (string \<Rightarrow> author list \<Rightarrow> int) \<Rightarrow> (string \<Rightarrow> entry list)
    \<Rightarrow> string \<Rightarrow> string list \<Rightarrow> buzzwords \<Rightarrow> bool \<Rightarrow> world \<Rightarrow> (error + unit) \<times> world" where
  "send_articles pr pra feed cid categories bw q w =
     (case collect pr pra feed categories bw [] w of
        (articles, w1) \<Rightarrow>
          (let w2 = print_out (PArticles articles) w1
           in if articles = []
              then (if \<not> q then (Inr (), send_message cid nothing_text w2) else (Inr (), w2))
              else send_each cid articles
                     (send_message cid (found_text (length articles)) w2)))"

section \<open>load_config\<close>

text \<open>\<open>section[key]\<close>: the lookup of an option and the interpolation of its value.\<close>

definition getitem :: "(string \<rightharpoonup> stored) \<Rightarrow> string \<Rightarrow> error + string" where
  "getitem sec k =
     (case sec k of
        None \<Rightarrow> Inl (KeyError k)
      | Some BadInterpolation \<Rightarrow> Inl (InterpolationError k)
      | Some (Value v) \<Rightarrow> Inr v)"

text \<open>
  The loop \<open>for section in config.sections()\<close>, with \<open>updates\<close> carried along. The
  dictionary of an update reads \<open>category\<close>, \<open>chat_id\<close>, \<open>buzzwords\<close> and
  \<open>authors\<close> in this order.
\<close>

fun load_sections :: "config \<Rightarrow> string list \<Rightarrow> update list \<Rightarrow> error + update list" where
  "load_sections cfg [] updates = Inr updates"
| "load_sections cfg (s # rest) updates =
     (if s \<noteq> ''bot'' then
        (let current_section = options cfg s
         in if \<not> (''category'' \<in> dom current_section
                  \<and> ''chat_id'' \<in> dom current_section
                  \<and> ''buzzwords'' \<in> dom current_section)
            then Inl (IncompleteSection s)
            else
              (case getitem current_section ''category'' of
                 Inl e \<Rightarrow> Inl e
               | Inr c \<Rightarrow>
              (case getitem current_section ''chat_id'' of
                 Inl e \<Rightarrow> Inl e
               | Inr i \<Rightarrow>
              (case getitem current_section ''buzzwords'' of
                 Inl e \<Rightarrow> Inl e
               | Inr b \<Rightarrow>
              (case getitem current_section ''authors'' of
                 Inl e \<Rightarrow> Inl e
               | Inr a \<Rightarrow>
                   load_sections cfg rest
                     (updates @
                      [\<lparr>category = split CHR '','' c, chat_id = i,
                        upd_buzzwords = split CHR '','' b,
                        upd_authors = split CHR '','' a\<rparr>]))))))
      else load_sections cfg rest updates)"

text \<open>
  \<open>config.read(path)\<close> is the function \<open>fs\<close> from a path to the parsed file, or to
  the exception of the parser on a file that it refuses; a file that does not exist
  reads as a configuration without sections.
\<close>

definition load_config ::
  "(string \<Rightarrow> error + config) \<Rightarrow> string \<Rightarrow> error + (string \<times> update list)" where
  "load_config fs path =
     (case fs path of
        Inl e \<Rightarrow> Inl e
      | Inr cfg \<Rightarrow>
          if ''bot'' \<notin> set (sections cfg) then Inl NoBotSection
          else
            (let bot_config = options cfg ''bot''
             in if ''token'' \<notin> dom bot_config then Inl NoToken
                else
                  (case getitem bot_config ''token'' of
                     Inl e \<Rightarrow> Inl e
                   | Inr token \<Rightarrow>
                       (case load_sections cfg (sections cfg) [] of
                          Inl e \<Rightarrow> Inl e
                        | Inr updates \<Rightarrow> Inr (token, updates)))))"

section \<open>main and the check of the day\<close>

definition DEFAULT_CONFIGURATION_PATH :: string where
  "DEFAULT_CONFIGURATION_PATH = ''/home/jo/Config/aub.config.ini''"

text \<open>\<open>args.config_path or DEFAULT_CONFIGURATION_PATH\<close>: an empty string is false.\<close>

definition resolve_config_path :: "args \<Rightarrow> string" where
  "resolve_config_path a =
     (case config_path a of
        None \<Rightarrow> DEFAULT_CONFIGURATION_PATH
      | Some p \<Rightarrow> if p = [] then DEFAULT_CONFIGURATION_PATH else p)"

text \<open>The loop \<open>for update in updates\<close>; an exception of \<open>send_articles\<close> ends it.\<close>

fun send_updates ::
  "(string \<Rightarrow> string \<Rightarrow> int) \<Rightarrow> (string \<Rightarrow> author list \<Rightarrow> int) \<Rightarrow> (string \<Rightarrow> entry list)
    \<Rightarrow> string \<Rightarrow> bool \<Rightarrow> update list \<Rightarrow> world \<Rightarrow> (error + unit) \<times> world" where
  "send_updates pr pra feed token q [] w = (Inr (), w)"
| "send_updates pr pra feed token q (u # us) w =
     (let w1 = print_out (PBot token) w;
          bw = \<lparr>bw_authors = upd_authors u, bw_article = upd_buzzwords u\<rparr>
      in case send_articles pr pra feed (chat_id u) (category u) bw q w1 of
           (Inl e, w2) \<Rightarrow> (Inl e, w2)
         | (Inr _, w2) \<Rightarrow> send_updates pr pra feed token q us w2)"

text \<open>
  \<open>telebot.TeleBot(token, parse_mode="HTML")\<close> belongs to the library; \<open>tb\<close> tells
  for a token whether the constructor returns or raises.
\<close>

definition main ::
  "(string \<Rightarrow> string \<Rightarrow> int) \<Rightarrow> (string \<Rightarrow> author list \<Rightarrow> int) \<Rightarrow> (string \<Rightarrow> entry list)
    \<Rightarrow> (string \<Rightarrow> error + config) \<Rightarrow> (string \<Rightarrow> error + unit) \<Rightarrow> args \<Rightarrow> world
    \<Rightarrow> (error + unit) \<times> world" where
  "main pr pra feed fs tb a w =
     (let path = resolve_config_path a;
          w1 = print_out (PStr (''Config path:'' @ path @ [CHR 0x0A])) w
      in case load_config fs path of
           Inl e \<Rightarrow> (Inl e, w1)
         | Inr (token, updates) \<Rightarrow>
             (let w2 = print_out (PConfig token updates) w1
              in case tb token of
                   Inl e \<Rightarrow> (Inl e, w2)
                 | Inr _ \<Rightarrow> send_updates pr pra feed token (quiet a) updates w2))"

text \<open>
  The whole script on a given day: the check of the day at module level, then
  \<open>main\<close>. The first component is the exit code of the process: 0 after
  \<open>exit(0)\<close> and after a normal return, 1 after an exception that nothing catches.
\<close>

definition weekend_notice :: string where
  "weekend_notice = ''C'est le week-end!''"

definition script ::
  "(string \<Rightarrow> string \<Rightarrow> int) \<Rightarrow> (string \<Rightarrow> author list \<Rightarrow> int) \<Rightarrow> (string \<Rightarrow> entry list)
    \<Rightarrow> (string \<Rightarrow> error + config) \<Rightarrow> (string \<Rightarrow> error + unit) \<Rightarrow> weekday \<Rightarrow> args \<Rightarrow> world
    \<Rightarrow> int \<times> world" where
  "script pr pra feed fs tb day a w =
     (if strftime_A day \<in> set [''Saturday'', ''Sunday'']
      then (0, print_out (PStr weekend_notice) w)
      else (case main pr pra feed fs tb a w of
              (Inl e, w') \<Rightarrow> (1, w')
            | (Inr _, w') \<Rightarrow> (0, w')))"

section \<open>Text of an article message\<close>

text \<open>
  The text that \<open>send_articles\<close> builds for an article with at least one author,
  as one function of the article.
\<close>

definition article_text :: "entry \<Rightarrow> string" where
  "article_text article =
     ''<strong>Title</strong>: '' @ title article @
     [CHR 0x0A] @ ''<strong>Authors</strong>: '' @ name (hd (authors article)) @
     [CHR 0x0A] @ ''<strong>Link</strong>: '' @ id_entry article @
     [CHR 0x0A] @ ''<strong>Abstract:</strong>'' @
     [CHR 0x0A] @ processed_summary article"

text \<open>An entry passes the filter when one keyword or one author name scores above 90.\<close>

definition matched ::
  "(string \<Rightarrow> string \<Rightarrow> int) \<Rightarrow> (string \<Rightarrow> author list \<Rightarrow> int) \<Rightarrow> buzzwords \<Rightarrow> entry \<Rightarrow> bool" where
  "matched pr pra bw e =
     ((\<exists>b \<in> set (bw_article bw). 90 < pr b (title e) \<or> 90 < pr b (summary e))
      \<or> (\<exists>a \<in> set (bw_authors bw). 90 < pra a (authors e)))"

text \<open>
  An option that is there and whose value interpolates; the three options that the
  completeness check of \<open>load_config\<close> names.
\<close>

definition readable :: "config \<Rightarrow> string \<Rightarrow> string \<Rightarrow> bool" where
  "readable cfg s k =
     (case options cfg s k of Some (Value v) \<Rightarrow> True | Some BadInterpolation \<Rightarrow> False
      | None \<Rightarrow> False)"

definition complete :: "config \<Rightarrow> string \<Rightarrow> bool" where
  "complete cfg s =
     (''category'' \<in> dom (options cfg s) \<and> ''chat_id'' \<in> dom (options cfg s)
      \<and> ''buzzwords'' \<in> dom (options cfg s))"

section \<open>Summaries as markup\<close>






section \<open>The reference algorithm of the specification\<close>

text \<open>
  The Relevance Evaluator as the specification words it (section 4.2), with the equality
  of its data model (section 3): two articles are the same when their identifiers are.
  Adding to the RelevantSet keeps it free of duplicates.
\<close>

definition spec_present :: "entry \<Rightarrow> entry list \<Rightarrow> bool" where
  "spec_present a rs = (id_entry a \<in> set (map id_entry rs))"

definition spec_add :: "entry \<Rightarrow> entry list \<Rightarrow> entry list" where
  "spec_add a rs = (if spec_present a rs then rs else rs @ [a])"

text \<open>
  Step 2a: the first keyword that matches the title or the summary adds the article and
  ends the loop; the flag tells whether the article was added.
\<close>

fun spec_keywords ::
  "(string \<Rightarrow> string \<Rightarrow> int) \<Rightarrow> entry \<Rightarrow> string list \<Rightarrow> entry list \<Rightarrow> entry list \<times> bool" where
  "spec_keywords pr a [] rs = (rs, False)"
| "spec_keywords pr a (k # ks) rs =
     (if 90 < pr k (title a) \<or> 90 < pr k (summary a) then (spec_add a rs, True)
      else spec_keywords pr a ks rs)"

text \<open>Step 2b: every author name that matches the author list adds the article.\<close>

fun spec_authors ::
  "(string \<Rightarrow> author list \<Rightarrow> int) \<Rightarrow> entry \<Rightarrow> string list \<Rightarrow> entry list \<Rightarrow> entry list" where
  "spec_authors pra a [] rs = rs"
| "spec_authors pra a (n # ns) rs =
     spec_authors pra a ns (if 90 < pra n (authors a) then spec_add a rs else rs)"

text \<open>Step 2 for one fetched article: skipped when already present.\<close>

definition spec_article ::
  "(string \<Rightarrow> string \<Rightarrow> int) \<Rightarrow> (string \<Rightarrow> author list \<Rightarrow> int) \<Rightarrow> buzzwords
    \<Rightarrow> entry \<Rightarrow> entry list \<Rightarrow> entry list" where
  "spec_article pr pra bw a rs =
     (if spec_present a rs then rs
      else (case spec_keywords pr a (bw_article bw) rs of
              (rs', added) \<Rightarrow>
                if added then rs' else spec_authors pra a (bw_authors bw) rs'))"

fun spec_articles ::
  "(string \<Rightarrow> string \<Rightarrow> int) \<Rightarrow> (string \<Rightarrow> author list \<Rightarrow> int) \<Rightarrow> buzzwords
    \<Rightarrow> entry list \<Rightarrow> entry list \<Rightarrow> entry list" where
  "spec_articles pr pra bw [] rs = rs"
| "spec_articles pr pra bw (a # as) rs =
     spec_articles pr pra bw as (spec_article pr pra bw a rs)"

text \<open>Step 1: the categories in order, each fetched once.\<close>

fun spec_evaluate ::
  "(string \<Rightarrow> string \<Rightarrow> int) \<Rightarrow> (string \<Rightarrow> author list \<Rightarrow> int) \<Rightarrow> (string \<Rightarrow> entry list)
    \<Rightarrow> string list \<Rightarrow> buzzwords \<Rightarrow> entry list \<Rightarrow> entry list" where
  "spec_evaluate pr pra feed [] bw rs = rs"
| "spec_evaluate pr pra feed (c # cs) bw rs =
     spec_evaluate pr pra feed cs bw (spec_articles pr pra bw (feed c) rs)"

section \<open>Example inputs\<close>

text \<open>
  A scoring function for the examples: 100 for equal strings, 0 otherwise; on an author
  list, 100 when the name is the name of one of the authors.
\<close>

definition exact_ratio :: "string \<Rightarrow> string \<Rightarrow> int" where
  "exact_ratio q t = (if q = t then 100 else 0)"

definition exact_ratio_authors :: "string \<Rightarrow> author list \<Rightarrow> int" where
  "exact_ratio_authors q as = (if q \<in> set (map name as) then 100 else 0)"

definition w0 :: world where
  "w0 = \<lparr>fetches = [], sent = [], stdout = []\<rparr>"

definition art1 :: entry where
  "art1 = \<lparr>id_entry = ''abs/1'', title = ''graphs'', summary = ''<p>on graphs</p>'',
           authors = [\<lparr>name = ''Ada''\<rparr>, \<lparr>name = ''Bob''\<rparr>], other_keys = []\<rparr>"

definition art2 :: entry where
  "art2 = \<lparr>id_entry = ''abs/2'', title = ''logic'',
           summary = ''<p>Line one'' @ [CHR 0x0A] @ ''Line two</p>'',
           authors = [\<lparr>name = ''Cy''\<rparr>], other_keys = []\<rparr>"

text \<open>An entry with the identifier of \<open>art1\<close> and another title.\<close>

definition art1b :: entry where
  "art1b = \<lparr>id_entry = ''abs/1'', title = ''logic'', summary = ''proofs'',
            authors = [\<lparr>name = ''Cy''\<rparr>], other_keys = []\<rparr>"

text \<open>An entry without authors.\<close>

definition art3 :: entry where
  "art3 = \<lparr>id_entry = ''abs/3'', title = ''graphs'', summary = ''none'', authors = [],
           other_keys = []\<rparr>"

text \<open>The entry \<open>art1\<close> with another value under a key that the program does not read.\<close>

definition art1_lo :: entry where
  "art1_lo = art1\<lparr>other_keys := [(''base'', ''cs.LO'')]\<rparr>"

definition feed1 :: "string \<Rightarrow> entry list" where
  "feed1 c = (if c = ''cs.LG'' then [art1, art2] else if c = ''cs.LO'' then [art2, art1] else [])"

definition bw1 :: buzzwords where
  "bw1 = \<lparr>bw_authors = [''Ada'', ''Cy''], bw_article = [''graphs'', ''<p>on graphs</p>'']\<rparr>"

text \<open>
  Configurations: a complete one, one without the section \<open>bot\<close>, one whose second
  update section has no \<open>authors\<close>, and a complete one whose \<open>buzzwords\<close> do not
  interpolate (a value such as \<open>100% graphs\<close>).
\<close>

definition cfg_full :: config where
  "cfg_full =
     \<lparr>sections = [''bot'', ''ml''],
      options = (\<lambda>s. if s = ''bot'' then [''token'' \<mapsto> Value ''t0'']
                      else if s = ''ml'' then
                        [''category'' \<mapsto> Value ''cs.LG,cs.LO'', ''chat_id'' \<mapsto> Value ''42'',
                         ''buzzwords'' \<mapsto> Value ''graphs'', ''authors'' \<mapsto> Value ''Ada'']
                      else Map.empty)\<rparr>"

definition cfg_no_bot :: config where
  "cfg_no_bot =
     \<lparr>sections = [''ml''],
      options = (\<lambda>s. if s = ''ml'' then
                        [''category'' \<mapsto> Value ''cs.LG'', ''chat_id'' \<mapsto> Value ''42'',
                         ''buzzwords'' \<mapsto> Value ''graphs'', ''authors'' \<mapsto> Value ''Ada'']
                      else Map.empty)\<rparr>"

definition cfg_two :: config where
  "cfg_two =
     \<lparr>sections = [''bot'', ''ml'', ''lo''],
      options = (\<lambda>s. if s = ''bot'' then [''token'' \<mapsto> Value ''t0'']
                      else if s = ''ml'' then
                        [''category'' \<mapsto> Value ''cs.LG'', ''chat_id'' \<mapsto> Value ''42'',
                         ''buzzwords'' \<mapsto> Value ''graphs'', ''authors'' \<mapsto> Value ''Ada'']
                      else if s = ''lo'' then
                        [''category'' \<mapsto> Value ''cs.LO'', ''chat_id'' \<mapsto> Value ''43'',
                         ''buzzwords'' \<mapsto> Value ''logic'']
                      else Map.empty)\<rparr>"


text \<open>
  Two configurations whose update section has the three named options and no
  \<open>authors\<close>: in one the value of \<open>buzzwords\<close> does not interpolate, the other has
  no section \<open>bot\<close>.
\<close>

definition cfg_percent_no_authors :: config where
  "cfg_percent_no_authors =
     \<lparr>sections = [''bot'', ''ml''],
      options = (\<lambda>s. if s = ''bot'' then [''token'' \<mapsto> Value ''t0'']
                      else if s = ''ml'' then
                        [''category'' \<mapsto> Value ''cs.LG'', ''chat_id'' \<mapsto> Value ''42'',
                         ''buzzwords'' \<mapsto> BadInterpolation]
                      else Map.empty)\<rparr>"

definition cfg_only_ml :: config where
  "cfg_only_ml =
     \<lparr>sections = [''ml''],
      options = (\<lambda>s. if s = ''ml'' then
                        [''category'' \<mapsto> Value ''cs.LG'', ''chat_id'' \<mapsto> Value ''42'',
                         ''buzzwords'' \<mapsto> Value ''graphs'']
                      else Map.empty)\<rparr>"

definition args0 :: args where
  "args0 = \<lparr>config_path = None, quiet = False\<rparr>"

section \<open>The scanning loops\<close>

lemma append_new_twice: "append_new e (append_new e res) = append_new e res"
  by (simp add: append_new_def)

lemma set_append_new: "set (append_new e res) = insert e (set res)"
  by (auto simp: append_new_def)

lemma distinct_append_new: "distinct res \<Longrightarrow> distinct (append_new e res)"
  by (simp add: append_new_def)

lemma scan_buzzwords_eq:
  "scan_buzzwords pr e bs res =
     (if \<exists>b \<in> set bs. 90 < pr b (title e) \<or> 90 < pr b (summary e)
      then append_new e res else res)"
  by (induction bs arbitrary: res) (auto simp: append_new_twice)

lemma scan_authors_eq:
  "scan_authors pra e as res =
     (if \<exists>a \<in> set as. 90 < pra a (authors e) then append_new e res else res)"
  by (induction as arbitrary: res) (auto simp: append_new_twice)

lemma scan_entry_eq:
  "scan_authors pra e (bw_authors bw) (scan_buzzwords pr e (bw_article bw) res) =
     (if matched pr pra bw e then append_new e res else res)"
  by (simp add: scan_buzzwords_eq scan_authors_eq matched_def append_new_twice)

lemma set_scan_entries:
  "set (scan_entries pr pra bw es res) = set res \<union> {e \<in> set es. matched pr pra bw e}"
  by (induction es arbitrary: res) (auto simp: scan_entry_eq set_append_new)

lemma distinct_scan_entries:
  "distinct res \<Longrightarrow> distinct (scan_entries pr pra bw es res)"
  by (induction es arbitrary: res) (auto simp: scan_entry_eq distinct_append_new)

lemma scan_entries_append:
  "scan_entries pr pra bw (es @ fs) res =
     scan_entries pr pra bw fs (scan_entries pr pra bw es res)"
  by (induction es arbitrary: res) auto

lemma set_merge_results: "set (merge_results rs as) = set as \<union> set rs"
  by (induction rs arbitrary: as) (auto simp: set_append_new)

lemma merge_results_append:
  "merge_results (rs @ [e]) as = append_new e (merge_results rs as)"
  by (induction rs arbitrary: as) auto

text \<open>
  Merging the result of one category into \<open>articles\<close> is the same as scanning the
  category with \<open>articles\<close> as the starting list.
\<close>

lemma merge_scan_entries:
  "merge_results (scan_entries pr pra bw es res) as =
     scan_entries pr pra bw es (merge_results res as)"
proof (induction es arbitrary: res)
  case Nil
  show ?case by simp
next
  case (Cons e es)
  have "merge_results (if matched pr pra bw e then append_new e res else res) as =
        (if matched pr pra bw e then append_new e (merge_results res as)
         else merge_results res as)"
    by (auto simp: append_new_def merge_results_append set_merge_results)
  with Cons show ?case by (simp add: scan_entry_eq)
qed

lemma fst_collect:
  "fst (collect pr pra feed cats bw as w) =
     scan_entries pr pra bw (concat (map feed cats)) as"
  by (induction cats arbitrary: as w)
     (auto simp: get_articles_def merge_scan_entries scan_entries_append)

lemma snd_collect:
  "snd (collect pr pra feed cats bw as w) = w\<lparr>fetches := fetches w @ cats\<rparr>"
  by (induction cats arbitrary: as w) (auto simp: get_articles_def)

section \<open>The reference algorithm as one scan\<close>

lemma spec_add_twice: "spec_add a (spec_add a rs) = spec_add a rs"
  by (simp add: spec_add_def spec_present_def)

lemma spec_keywords_eq:
  "spec_keywords pr a ks rs =
     (if \<exists>k \<in> set ks. 90 < pr k (title a) \<or> 90 < pr k (summary a)
      then (spec_add a rs, True) else (rs, False))"
  by (induction ks) auto

lemma spec_authors_eq:
  "spec_authors pra a ns rs =
     (if \<exists>n \<in> set ns. 90 < pra n (authors a) then spec_add a rs else rs)"
  by (induction ns arbitrary: rs) (auto simp: spec_add_twice)

lemma spec_article_eq:
  "spec_article pr pra bw a rs = (if matched pr pra bw a then spec_add a rs else rs)"
  by (auto simp: spec_article_def spec_keywords_eq spec_authors_eq matched_def spec_add_def)

lemma spec_add_append_new:
  "inj_on id_entry (insert a (set rs)) \<Longrightarrow> spec_add a rs = append_new a rs"
  by (auto simp: spec_add_def append_new_def spec_present_def inj_on_def)

lemma spec_articles_scan:
  "inj_on id_entry (set as \<union> set rs) \<Longrightarrow>
     spec_articles pr pra bw as rs = scan_entries pr pra bw as rs"
proof (induction as arbitrary: rs)
  case Nil
  show ?case by simp
next
  case (Cons a as)
  have inj1: "inj_on id_entry (insert a (set rs))"
    by (rule inj_on_subset [OF Cons.prems]) auto
  have step: "spec_article pr pra bw a rs =
      (if matched pr pra bw a then append_new a rs else rs)"
    by (simp add: spec_article_eq spec_add_append_new [OF inj1])
  have "inj_on id_entry (set as \<union> set (spec_article pr pra bw a rs))"
    by (rule inj_on_subset [OF Cons.prems]) (auto simp: step set_append_new)
  then show ?case
    using Cons.IH by (simp add: step scan_entry_eq)
qed

lemma spec_evaluate_scan:
  "inj_on id_entry ((\<Union>c \<in> set cats. set (feed c)) \<union> set rs) \<Longrightarrow>
     spec_evaluate pr pra feed cats bw rs =
       scan_entries pr pra bw (concat (map feed cats)) rs"
proof (induction cats arbitrary: rs)
  case Nil
  show ?case by simp
next
  case (Cons c cs)
  have a: "inj_on id_entry (set (feed c) \<union> set rs)"
    by (rule inj_on_subset [OF Cons.prems]) auto
  have b: "inj_on id_entry
      ((\<Union>c \<in> set cs. set (feed c)) \<union> set (scan_entries pr pra bw (feed c) rs))"
    by (rule inj_on_subset [OF Cons.prems]) (auto simp: set_scan_entries)
  show ?case
    using Cons.IH [OF b] by (simp add: spec_articles_scan [OF a] scan_entries_append)
qed

section \<open>Claims about the RelevantSet\<close>

text \<open>
  C1. The list \<open>articles\<close> that \<open>send_articles\<close> accumulates, and the list that
  \<open>get_articles\<close> returns for one category, hold no entry twice, whatever the feed
  and the filters are: an entry that matches several keywords or author names, or that
  is in several categories, is in the list once. The comparison is equality of whole
  entries, so no identifier is in the list twice as long as the fetched entries with
  the same identifier are the same entry.
\<close>

theorem relevant_set_distinct:
  "distinct (fst (collect pr pra feed cats bw [] w))
   \<and> distinct (fst (get_articles pr pra feed cat bw w))
   \<and> (inj_on id_entry (\<Union>c \<in> set cats. set (feed c)) \<longrightarrow>
        distinct (map id_entry (fst (collect pr pra feed cats bw [] w))))"
proof -
  let ?rel = "fst (collect pr pra feed cats bw [] w)"
  have d: "distinct ?rel"
    by (simp add: fst_collect distinct_scan_entries)
  have s: "set ?rel \<subseteq> (\<Union>c \<in> set cats. set (feed c))"
    by (auto simp: fst_collect set_scan_entries)
  have g: "distinct (fst (get_articles pr pra feed cat bw w))"
    by (simp add: get_articles_def distinct_scan_entries)
  show ?thesis
    using d s g by (auto simp: distinct_map intro: inj_on_subset)
qed

text \<open>
  The entry \<open>art1\<close> matches two keywords and an author name and is in both
  categories; it is in the list once.
\<close>

theorem relevant_set_distinct_witness:
  "inj_on id_entry (\<Union>c \<in> set [''cs.LG'', ''cs.LO'']. set (feed1 c))
   \<and> fst (collect exact_ratio exact_ratio_authors feed1 [''cs.LG'', ''cs.LO''] bw1 [] w0)
       = [art1, art2]
   \<and> distinct (map id_entry
        (fst (collect exact_ratio exact_ratio_authors feed1 [''cs.LG'', ''cs.LO''] bw1 [] w0)))"
proof -
  have h: "inj_on id_entry (\<Union>c \<in> set [''cs.LG'', ''cs.LO'']. set (feed1 c))"
    by (simp add: feed1_def art1_def art2_def inj_on_def)
  have v: "fst (collect exact_ratio exact_ratio_authors feed1 [''cs.LG'', ''cs.LO''] bw1 [] w0)
      = [art1, art2]"
    by (simp add: get_articles_def feed1_def bw1_def art1_def art2_def append_new_def
        exact_ratio_def exact_ratio_authors_def)
  from relevant_set_distinct
    [of exact_ratio exact_ratio_authors feed1 "[''cs.LG'', ''cs.LO'']" bw1 w0] h v
  show ?thesis by blast
qed

text \<open>
  An article of two categories whose entries differ in a key that the program does not
  read is kept twice: its identifier is in the list twice.
\<close>

theorem same_identifier_twice:
  "map id_entry
     (fst (collect exact_ratio exact_ratio_authors
        (\<lambda>c. if c = ''cs.LG'' then [art1] else [art1_lo]) [''cs.LG'', ''cs.LO'']
        \<lparr>bw_authors = [], bw_article = [''graphs'']\<rparr> [] w0))
   = [''abs/1'', ''abs/1'']"
  by (simp add: get_articles_def art1_def art1_lo_def append_new_def exact_ratio_def)

text \<open>
  C2. An entry of the feed is in the result of \<open>get_articles\<close> exactly when some
  keyword scores above 90 against its title or its summary, or some author name scores
  above 90 against its author list. The comparison is strict: with one keyword and
  scores of 90 the entry is left out, with a score of 91 it is taken, and the same
  for one author name.
\<close>

theorem match_threshold:
  "(e \<in> set (fst (get_articles pr pra feed cat bw w)) \<longleftrightarrow>
      e \<in> set (feed cat) \<and>
      ((\<exists>b \<in> set (bw_article bw). 90 < pr b (title e) \<or> 90 < pr b (summary e))
       \<or> (\<exists>a \<in> set (bw_authors bw). 90 < pra a (authors e))))
   \<and> (pr b (title e) = 90 \<and> pr b (summary e) = 90 \<longrightarrow>
        fst (get_articles pr pra (\<lambda>c. [e]) cat \<lparr>bw_authors = [], bw_article = [b]\<rparr> w) = [])
   \<and> (pr b (title e) = 91 \<or> pr b (summary e) = 91 \<longrightarrow>
        fst (get_articles pr pra (\<lambda>c. [e]) cat \<lparr>bw_authors = [], bw_article = [b]\<rparr> w) = [e])
   \<and> (pra a (authors e) = 90 \<longrightarrow>
        fst (get_articles pr pra (\<lambda>c. [e]) cat \<lparr>bw_authors = [a], bw_article = []\<rparr> w) = [])
   \<and> (pra a (authors e) = 91 \<longrightarrow>
        fst (get_articles pr pra (\<lambda>c. [e]) cat \<lparr>bw_authors = [a], bw_article = []\<rparr> w) = [e])"
  by (auto simp: get_articles_def set_scan_entries matched_def append_new_def)

text \<open>A scoring function that gives 90 to the summary and 91 to the title.\<close>

theorem match_threshold_witness:
  "fst (get_articles (\<lambda>q t. 90) exact_ratio_authors (\<lambda>c. [art2]) ''cs.LO''
          \<lparr>bw_authors = [], bw_article = [''logic'']\<rparr> w0) = []
   \<and> fst (get_articles (\<lambda>q t. if t = ''logic'' then 91 else 90) exact_ratio_authors
          (\<lambda>c. [art2]) ''cs.LO'' \<lparr>bw_authors = [], bw_article = [''logic'']\<rparr> w0) = [art2]"
proof -
  have a: "(\<lambda>q t. 90::int) ''logic'' (title art2) = 90
      \<and> (\<lambda>q t. 90::int) ''logic'' (summary art2) = 90"
    by simp
  have b: "(\<lambda>q t. if t = ''logic'' then 91 else (90::int)) ''logic'' (title art2) = 91
      \<or> (\<lambda>q t. if t = ''logic'' then 91 else (90::int)) ''logic'' (summary art2) = 91"
    by (simp add: art2_def)
  from match_threshold [of art2 "\<lambda>q t. 90" exact_ratio_authors "\<lambda>c. [art2]" "''cs.LO''"
      "\<lparr>bw_authors = [], bw_article = [''logic'']\<rparr>" w0 "''logic''"] a
    match_threshold [of art2 "\<lambda>q t. if t = ''logic'' then 91 else 90" exact_ratio_authors
      "\<lambda>c. [art2]" "''cs.LO''" "\<lparr>bw_authors = [], bw_article = [''logic'']\<rparr>" w0 "''logic''"] b
  show ?thesis by blast
qed

text \<open>
  C3. When the fetched entries with the same identifier are the same entry, the list
  that the implementation accumulates over the categories (every keyword and every
  author name is tried, each addition guarded by a membership test) is the RelevantSet
  of the reference algorithm of section 4.2, element for element and in the same
  order.
\<close>

theorem collect_refines_reference:
  assumes "inj_on id_entry (\<Union>c \<in> set cats. set (feed c))"
  shows "fst (collect pr pra feed cats bw [] w) = spec_evaluate pr pra feed cats bw []"
  using assms by (simp add: fst_collect spec_evaluate_scan)

theorem collect_refines_reference_witness:
  "inj_on id_entry (\<Union>c \<in> set [''cs.LG'', ''cs.LO'']. set (feed1 c))
   \<and> spec_evaluate exact_ratio exact_ratio_authors feed1 [''cs.LG'', ''cs.LO''] bw1 []
       = [art1, art2]
   \<and> fst (collect exact_ratio exact_ratio_authors feed1 [''cs.LG'', ''cs.LO''] bw1 [] w0)
       = spec_evaluate exact_ratio exact_ratio_authors feed1 [''cs.LG'', ''cs.LO''] bw1 []"
proof -
  have h: "inj_on id_entry (\<Union>c \<in> set [''cs.LG'', ''cs.LO'']. set (feed1 c))"
    by (simp add: feed1_def art1_def art2_def inj_on_def)
  have v: "spec_evaluate exact_ratio exact_ratio_authors feed1 [''cs.LG'', ''cs.LO''] bw1 []
      = [art1, art2]"
    by (simp add: feed1_def bw1_def art1_def art2_def spec_article_def spec_add_def
        spec_present_def exact_ratio_def exact_ratio_authors_def)
  from collect_refines_reference
    [OF h, of exact_ratio exact_ratio_authors bw1 w0] h v
  show ?thesis by blast
qed

text \<open>
  With two fetched entries of one identifier and different titles, the implementation
  keeps both and the reference algorithm keeps the first.
\<close>

theorem reference_keeps_one_per_identifier:
  "fst (collect exact_ratio exact_ratio_authors (\<lambda>c. [art1, art1b]) [''cs.LO'']
          \<lparr>bw_authors = [''Cy''], bw_article = [''graphs'']\<rparr> [] w0) = [art1, art1b]
   \<and> spec_evaluate exact_ratio exact_ratio_authors (\<lambda>c. [art1, art1b]) [''cs.LO'']
          \<lparr>bw_authors = [''Cy''], bw_article = [''graphs'']\<rparr> [] = [art1]"
  by (simp add: get_articles_def art1_def art1b_def append_new_def spec_article_def
      spec_add_def spec_present_def exact_ratio_def exact_ratio_authors_def)

section \<open>Sending\<close>

lemma send_each_ok:
  "\<forall>a \<in> set as. authors a \<noteq> [] \<Longrightarrow>
   send_each cid as w =
     (Inr (), w\<lparr>sent := sent w @ map (\<lambda>a. (cid, article_text a)) as,
                stdout := stdout w @ map (\<lambda>a. PStr (processed_summary a)) as\<rparr>)"
proof (induction as arbitrary: w)
  case Nil
  show ?case by simp
next
  case (Cons a as)
  then obtain f fs where "authors a = f # fs"
    by (cases "authors a") auto
  with Cons show ?case
    by (simp add: send_message_def print_out_def article_text_def)
qed

lemma send_each_fail:
  "\<forall>a \<in> set pre. authors a \<noteq> [] \<Longrightarrow> authors b = [] \<Longrightarrow>
   send_each cid (pre @ b # post) w =
     (Inl IndexError,
      w\<lparr>sent := sent w @ map (\<lambda>a. (cid, article_text a)) pre,
        stdout := stdout w @ map (\<lambda>a. PStr (processed_summary a)) (pre @ [b])\<rparr>)"
proof (induction pre arbitrary: w)
  case Nil
  then show ?case by (simp add: print_out_def)
next
  case (Cons a as)
  then obtain f fs where "authors a = f # fs"
    by (cases "authors a") auto
  with Cons show ?case
    by (simp add: send_message_def print_out_def article_text_def)
qed

lemma send_each_Inr_authors:
  "fst (send_each cid as w) = Inr () \<Longrightarrow> \<forall>a \<in> set as. authors a \<noteq> []"
  by (induction as arbitrary: w) (auto simp: Let_def split: list.splits)

lemma send_articles_unfold:
  "send_articles pr pra feed cid cats bw q w =
     (if fst (collect pr pra feed cats bw [] w) = []
      then (if \<not> q
            then (Inr (), send_message cid nothing_text
                    (print_out (PArticles []) (w\<lparr>fetches := fetches w @ cats\<rparr>)))
            else (Inr (), print_out (PArticles []) (w\<lparr>fetches := fetches w @ cats\<rparr>)))
      else send_each cid (fst (collect pr pra feed cats bw [] w))
             (send_message cid (found_text (length (fst (collect pr pra feed cats bw [] w))))
                (print_out (PArticles (fst (collect pr pra feed cats bw [] w)))
                   (w\<lparr>fetches := fetches w @ cats\<rparr>))))"
  by (simp add: send_articles_def Let_def case_prod_beta snd_collect)

section \<open>Claims about the notifications\<close>

text \<open>
  C4. When the evaluation of a FilterSet gives an empty RelevantSet, \<open>send_articles\<close>
  returns normally; with \<open>quiet\<close> set it hands no message to the bot, and without it
  exactly one, the "nothing of interest" text, addressed to the chat of the FilterSet.
\<close>

theorem empty_result_notifications:
  assumes "fst (collect pr pra feed cats bw [] w) = []"
  shows "fst (send_articles pr pra feed cid cats bw q w) = Inr () \<and>
         sent (snd (send_articles pr pra feed cid cats bw q w)) =
           (if q then sent w
            else sent w @
              [(cid, ''I scraped the arXiv RSS but found nothing of interest for you. Sorry.'')])"
  using assms
  by (simp add: send_articles_unfold send_message_def print_out_def nothing_text_def)

theorem empty_result_notifications_witness:
  "fst (collect exact_ratio exact_ratio_authors feed1 [''cs.LG'']
          \<lparr>bw_authors = [''Dan''], bw_article = [''sets'']\<rparr> [] w0) = []
   \<and> sent (snd (send_articles exact_ratio exact_ratio_authors feed1 ''42'' [''cs.LG'']
          \<lparr>bw_authors = [''Dan''], bw_article = [''sets'']\<rparr> True w0)) = []
   \<and> sent (snd (send_articles exact_ratio exact_ratio_authors feed1 ''42'' [''cs.LG'']
          \<lparr>bw_authors = [''Dan''], bw_article = [''sets'']\<rparr> False w0)) =
       [(''42'', ''I scraped the arXiv RSS but found nothing of interest for you. Sorry.'')]"
proof -
  have h: "fst (collect exact_ratio exact_ratio_authors feed1 [''cs.LG'']
          \<lparr>bw_authors = [''Dan''], bw_article = [''sets'']\<rparr> [] w0) = []"
    by (simp add: get_articles_def feed1_def art1_def art2_def exact_ratio_def
        exact_ratio_authors_def)
  have s: "sent w0 = []"
    by (simp add: w0_def)
  from empty_result_notifications [OF h, of "''42''" True]
    empty_result_notifications [OF h, of "''42''" False] h s
  show ?thesis by simp
qed

text \<open>
  C5. When the evaluation of a FilterSet gives a RelevantSet of \<open>n > 0\<close> articles and
  every one of them has at least one author, \<open>send_articles\<close> returns normally after
  handing \<open>n + 1\<close> messages to the bot, all to the chat of the FilterSet: first the
  message that states the count \<open>n\<close>, then one message per article in the order of the
  RelevantSet, made of the title, the name of the first author, the identifier and the
  cleaned summary.
\<close>

theorem found_notifications:
  assumes "fst (collect pr pra feed cats bw [] w) = articles"
    and "articles \<noteq> []"
    and "\<forall>a \<in> set articles. authors a \<noteq> []"
  shows "fst (send_articles pr pra feed cid cats bw q w) = Inr () \<and>
         sent (snd (send_articles pr pra feed cid cats bw q w)) =
           sent w @
           (cid, ''You are going to be happy. I found '' @ str_nat (length articles) @
                 '' article(s) of potential interest.'') #
           map (\<lambda>a. (cid,
                  ''<strong>Title</strong>: '' @ title a @
                  [CHR 0x0A] @ ''<strong>Authors</strong>: '' @ name (hd (authors a)) @
                  [CHR 0x0A] @ ''<strong>Link</strong>: '' @ id_entry a @
                  [CHR 0x0A] @ ''<strong>Abstract:</strong>'' @
                  [CHR 0x0A] @ replace ''</p>'' [] (replace ''<p>'' []
                      (replace [CHR 0x0A] '' '' (summary a))))) articles \<and>
         length (sent (snd (send_articles pr pra feed cid cats bw q w))) =
           length (sent w) + (length articles + 1)"
  using assms
  by (simp add: send_articles_unfold send_each_ok send_message_def print_out_def found_text_def
      article_text_def processed_summary_def)

text \<open>Two articles found in one category: three messages, in the order of the feed.\<close>

theorem found_notifications_witness:
  "fst (collect exact_ratio exact_ratio_authors feed1 [''cs.LG''] bw1 [] w0) = [art1, art2]
   \<and> authors art1 \<noteq> [] \<and> authors art2 \<noteq> []
   \<and> sent (snd (send_articles exact_ratio exact_ratio_authors feed1 ''42'' [''cs.LG'']
          bw1 False w0)) =
       [(''42'', ''You are going to be happy. I found 2 article(s) of potential interest.''),
        (''42'', ''<strong>Title</strong>: graphs'' @ [CHR 0x0A] @
                ''<strong>Authors</strong>: Ada'' @ [CHR 0x0A] @
                ''<strong>Link</strong>: abs/1'' @ [CHR 0x0A] @
                ''<strong>Abstract:</strong>'' @ [CHR 0x0A] @ ''on graphs''),
        (''42'', ''<strong>Title</strong>: logic'' @ [CHR 0x0A] @
                ''<strong>Authors</strong>: Cy'' @ [CHR 0x0A] @
                ''<strong>Link</strong>: abs/2'' @ [CHR 0x0A] @
                ''<strong>Abstract:</strong>'' @ [CHR 0x0A] @ ''Line one Line two'')]"
proof -
  have h: "fst (collect exact_ratio exact_ratio_authors feed1 [''cs.LG''] bw1 [] w0)
      = [art1, art2]"
    by (simp add: get_articles_def feed1_def bw1_def art1_def art2_def append_new_def
        exact_ratio_def exact_ratio_authors_def)
  have n: "[art1, art2] \<noteq> []"
    by simp
  have a: "\<forall>a \<in> set [art1, art2]. authors a \<noteq> []"
    by (simp add: art1_def art2_def)
  have r1: "replace ''</p>'' [] (replace ''<p>'' [] (replace [CHR 0x0A] '' '' (summary art1)))
      = ''on graphs''"
    by (simp add: art1_def replace.simps)
  have r2: "replace ''</p>'' [] (replace ''<p>'' [] (replace [CHR 0x0A] '' '' (summary art2)))
      = ''Line one Line two''"
    by (simp add: art2_def replace.simps)
  have f: "title art1 = ''graphs'' \<and> name (hd (authors art1)) = ''Ada''
      \<and> id_entry art1 = ''abs/1'' \<and> title art2 = ''logic''
      \<and> name (hd (authors art2)) = ''Cy'' \<and> id_entry art2 = ''abs/2''"
    by (simp add: art1_def art2_def)
  have c: "str_nat (Suc (Suc 0)) = ''2''"
    by (simp add: str_nat.simps digit_def)
  have s: "sent w0 = []"
    by (simp add: w0_def)
  from found_notifications [OF h n a, of "''42''" False] a h
  show ?thesis
    by (simp add: r1 r2 f c s)
qed

text \<open>
  One article found, without authors: the message with the count is sent and the
  article's message is not, so one message instead of two, and an exception.
\<close>

theorem found_article_without_author:
  "fst (collect exact_ratio exact_ratio_authors (\<lambda>c. [art3]) [''cs.LG''] bw1 [] w0) = [art3]
   \<and> fst (send_articles exact_ratio exact_ratio_authors (\<lambda>c. [art3]) ''42'' [''cs.LG'']
          bw1 False w0) = Inl IndexError
   \<and> sent (snd (send_articles exact_ratio exact_ratio_authors (\<lambda>c. [art3]) ''42'' [''cs.LG'']
          bw1 False w0)) =
       [(''42'', ''You are going to be happy. I found 1 article(s) of potential interest.'')]"
  by (simp add: send_articles_def get_articles_def bw1_def art3_def append_new_def
      exact_ratio_def exact_ratio_authors_def w0_def send_message_def print_out_def
      found_text_def str_nat.simps digit_def)

text \<open>
  C10. When the RelevantSet holds an article without authors, \<open>send_articles\<close> raises
  \<open>IndexError\<close> at the first such article: the message with the count and the messages
  of the articles before it have been sent, nothing after. So a normal return of
  \<open>send_articles\<close> means that every article of the RelevantSet has an author.
\<close>

theorem empty_authors_fails:
  "(fst (collect pr pra feed cats bw [] w) = pre @ b # post \<and>
    (\<forall>a \<in> set pre. authors a \<noteq> []) \<and> authors b = [] \<longrightarrow>
      fst (send_articles pr pra feed cid cats bw q w) = Inl IndexError \<and>
      sent (snd (send_articles pr pra feed cid cats bw q w)) =
        sent w @ (cid, found_text (length (pre @ b # post))) #
          map (\<lambda>a. (cid, article_text a)) pre)
   \<and> (fst (send_articles pr pra feed cid cats bw q w) = Inr () \<longrightarrow>
        (\<forall>a \<in> set (fst (collect pr pra feed cats bw [] w)). authors a \<noteq> []))"
proof (intro conjI impI)
  assume a: "fst (collect pr pra feed cats bw [] w) = pre @ b # post \<and>
    (\<forall>a \<in> set pre. authors a \<noteq> []) \<and> authors b = []"
  then have "send_articles pr pra feed cid cats bw q w =
     send_each cid (pre @ b # post)
       (send_message cid (found_text (length (pre @ b # post)))
          (print_out (PArticles (pre @ b # post)) (w\<lparr>fetches := fetches w @ cats\<rparr>)))"
    by (simp add: send_articles_unfold)
  with a show "fst (send_articles pr pra feed cid cats bw q w) = Inl IndexError"
    and "sent (snd (send_articles pr pra feed cid cats bw q w)) =
        sent w @ (cid, found_text (length (pre @ b # post))) #
          map (\<lambda>a. (cid, article_text a)) pre"
    by (simp_all add: send_each_fail send_message_def print_out_def)
next
  assume ok: "fst (send_articles pr pra feed cid cats bw q w) = Inr ()"
  show "\<forall>a \<in> set (fst (collect pr pra feed cats bw [] w)). authors a \<noteq> []"
  proof (cases "fst (collect pr pra feed cats bw [] w) = []")
    case True
    then show ?thesis by simp
  next
    case False
    with ok show ?thesis
      by (auto simp: send_articles_unfold dest: send_each_Inr_authors)
  qed
qed

text \<open>
  Three articles found, the second without authors: the count and the first article
  are sent, then the exception.
\<close>

theorem empty_authors_fails_witness:
  "fst (collect exact_ratio exact_ratio_authors (\<lambda>c. [art1, art3, art2]) [''cs.LG'']
          bw1 [] w0) = [art1] @ art3 # [art2]
   \<and> authors art1 \<noteq> [] \<and> authors art3 = []
   \<and> fst (send_articles exact_ratio exact_ratio_authors (\<lambda>c. [art1, art3, art2]) ''42''
          [''cs.LG''] bw1 True w0) = Inl IndexError
   \<and> sent (snd (send_articles exact_ratio exact_ratio_authors (\<lambda>c. [art1, art3, art2]) ''42''
          [''cs.LG''] bw1 True w0)) =
       [(''42'', ''You are going to be happy. I found 3 article(s) of potential interest.''),
        (''42'', ''<strong>Title</strong>: graphs'' @ [CHR 0x0A] @
                ''<strong>Authors</strong>: Ada'' @ [CHR 0x0A] @
                ''<strong>Link</strong>: abs/1'' @ [CHR 0x0A] @
                ''<strong>Abstract:</strong>'' @ [CHR 0x0A] @ ''on graphs'')]"
proof -
  have h: "fst (collect exact_ratio exact_ratio_authors (\<lambda>c. [art1, art3, art2]) [''cs.LG'']
          bw1 [] w0) = [art1] @ art3 # [art2]"
    by (simp add: get_articles_def bw1_def art1_def art2_def art3_def append_new_def
        exact_ratio_def exact_ratio_authors_def)
  have a: "\<forall>a \<in> set [art1]. authors a \<noteq> []"
    by (simp add: art1_def)
  have b: "authors art3 = []"
    by (simp add: art3_def)
  have t: "found_text (Suc (Suc (Suc 0))) =
      ''You are going to be happy. I found 3 article(s) of potential interest.''"
    by (simp add: found_text_def str_nat.simps digit_def)
  have m: "article_text art1 =
      ''<strong>Title</strong>: graphs'' @ [CHR 0x0A] @
      ''<strong>Authors</strong>: Ada'' @ [CHR 0x0A] @
      ''<strong>Link</strong>: abs/1'' @ [CHR 0x0A] @
      ''<strong>Abstract:</strong>'' @ [CHR 0x0A] @ ''on graphs''"
    by (simp add: article_text_def processed_summary_def art1_def replace.simps)
  have s: "sent w0 = []"
    by (simp add: w0_def)
  from empty_authors_fails [of exact_ratio exact_ratio_authors "\<lambda>c. [art1, art3, art2]"
      "[''cs.LG'']" bw1 w0 "[art1]" art3 "[art2]" "''42''" True] h a b
  have "fst (send_articles exact_ratio exact_ratio_authors (\<lambda>c. [art1, art3, art2]) ''42''
          [''cs.LG''] bw1 True w0) = Inl IndexError
     \<and> sent (snd (send_articles exact_ratio exact_ratio_authors (\<lambda>c. [art1, art3, art2]) ''42''
          [''cs.LG''] bw1 True w0)) =
        sent w0 @ (''42'', found_text (length ([art1] @ art3 # [art2]))) #
          map (\<lambda>a. (''42'', article_text a)) [art1]"
    by blast
  with h a b show ?thesis
    by (simp add: t m s)
qed

section \<open>Cleaning of the summary\<close>













section \<open>Loading the configuration\<close>

lemma readable_Value: "readable cfg s k \<Longrightarrow> \<exists>v. options cfg s k = Some (Value v)"
  by (auto simp: readable_def split: option.splits stored.splits)

text \<open>A section that is not complete, or has no \<open>authors\<close>, stops the loop.\<close>

lemma load_sections_incomplete:
  "s \<in> set ss \<Longrightarrow> s \<noteq> ''bot'' \<Longrightarrow>
   \<not> complete cfg s \<or> ''authors'' \<notin> dom (options cfg s) \<Longrightarrow>
   \<exists>e. load_sections cfg ss updates = Inl e"
proof (induction ss arbitrary: updates)
  case Nil
  then show ?case by simp
next
  case (Cons t ss)
  show ?case
  proof (cases "t = s")
    case True
    with Cons.prems show ?thesis
      by (auto simp: Let_def complete_def getitem_def dom_def
          split: option.splits stored.splits sum.splits)
  next
    case False
    with Cons.prems have "s \<in> set ss" by simp
    from Cons.IH [OF this Cons.prems(2,3)] show ?thesis
      by (auto simp: Let_def split: sum.splits)
  qed
qed

text \<open>
  With the three named options readable in every update section, the loop reaches the
  first section without \<open>authors\<close> and fails there.
\<close>

lemma load_sections_no_authors:
  "s \<in> set ss \<Longrightarrow> s \<noteq> ''bot'' \<Longrightarrow> ''authors'' \<notin> dom (options cfg s) \<Longrightarrow>
   \<forall>t \<in> set ss. t \<noteq> ''bot'' \<longrightarrow>
      readable cfg t ''category'' \<and> readable cfg t ''chat_id'' \<and> readable cfg t ''buzzwords''
      \<and> options cfg t ''authors'' \<noteq> Some BadInterpolation \<Longrightarrow>
   load_sections cfg ss updates = Inl (KeyError ''authors'')"
proof (induction ss arbitrary: updates)
  case Nil
  then show ?case by simp
next
  case (Cons t ss)
  show ?case
  proof (cases "t = ''bot''")
    case True
    with Cons show ?thesis by auto
  next
    case False
    with Cons.prems(4) obtain c i b where f:
      "options cfg t ''category'' = Some (Value c)" "options cfg t ''chat_id'' = Some (Value i)"
      "options cfg t ''buzzwords'' = Some (Value b)"
      and nb: "options cfg t ''authors'' \<noteq> Some BadInterpolation"
      by (auto dest!: readable_Value)
    show ?thesis
    proof (cases "options cfg t ''authors''")
      case None
      with False f show ?thesis by (simp add: Let_def dom_def getitem_def)
    next
      case (Some r)
      with nb obtain a where a: "options cfg t ''authors'' = Some (Value a)"
        by (cases r) auto
      from Some Cons.prems have "s \<in> set ss" by auto
      from Cons.IH [OF this Cons.prems(2,3)] Cons.prems(4) False f a show ?thesis
        by (simp add: Let_def dom_def getitem_def)
    qed
  qed
qed



section \<open>Claims about the configuration and the weekend\<close>




text \<open>
  C9. A configuration that the parser accepts and that has a section other than
  \<open>bot\<close> with \<open>category\<close>, \<open>chat_id\<close> and \<open>buzzwords\<close> but without \<open>authors\<close>
  never loads: \<open>load_config\<close> raises. When nothing fails before the read of
  \<open>authors\<close> (the section \<open>bot\<close> is there, its \<open>token\<close> and the three options of
  the completeness check in every other section are there and interpolate, and no
  \<open>authors\<close> fails to interpolate), the exception is the \<open>KeyError\<close> of the lookup
  of \<open>authors\<close>, which no check guards.
\<close>

theorem authors_mandatory:
  assumes "fs path = Inr cfg"
    and "s \<in> set (sections cfg)" and "s \<noteq> ''bot''"
    and "''category'' \<in> dom (options cfg s)"
    and "''chat_id'' \<in> dom (options cfg s)"
    and "''buzzwords'' \<in> dom (options cfg s)"
    and "''authors'' \<notin> dom (options cfg s)"
  shows "(\<exists>e. load_config fs path = Inl e)
       \<and> (''bot'' \<in> set (sections cfg) \<and> readable cfg ''bot'' ''token''
          \<and> (\<forall>t \<in> set (sections cfg). t \<noteq> ''bot'' \<longrightarrow>
                readable cfg t ''category'' \<and> readable cfg t ''chat_id''
                \<and> readable cfg t ''buzzwords''
                \<and> options cfg t ''authors'' \<noteq> Some BadInterpolation)
          \<longrightarrow> load_config fs path = Inl (KeyError ''authors''))"
proof (intro conjI impI)
  obtain e where "load_sections cfg (sections cfg) [] = Inl e"
    using load_sections_incomplete [of s "sections cfg" cfg "[]"] assms by blast
  then show "\<exists>e. load_config fs path = Inl e"
    using assms(1) by (auto simp: load_config_def Let_def split: sum.splits)
next
  assume pre: "''bot'' \<in> set (sections cfg) \<and> readable cfg ''bot'' ''token''
          \<and> (\<forall>t \<in> set (sections cfg). t \<noteq> ''bot'' \<longrightarrow>
                readable cfg t ''category'' \<and> readable cfg t ''chat_id''
                \<and> readable cfg t ''buzzwords''
                \<and> options cfg t ''authors'' \<noteq> Some BadInterpolation)"
  then have "load_sections cfg (sections cfg) [] = Inl (KeyError ''authors'')"
    using load_sections_no_authors [of s "sections cfg" cfg "[]"] assms by simp
  moreover from pre obtain tk where "options cfg ''bot'' ''token'' = Some (Value tk)"
    by (auto dest: readable_Value)
  ultimately show "load_config fs path = Inl (KeyError ''authors'')"
    using pre assms(1) by (simp add: load_config_def Let_def getitem_def dom_def)
qed

text \<open>The second update section has no \<open>authors\<close>; the first one is complete.\<close>

theorem authors_mandatory_witness:
  "''lo'' \<in> set (sections cfg_two)
   \<and> ''category'' \<in> dom (options cfg_two ''lo'')
   \<and> ''chat_id'' \<in> dom (options cfg_two ''lo'')
   \<and> ''buzzwords'' \<in> dom (options cfg_two ''lo'')
   \<and> ''authors'' \<notin> dom (options cfg_two ''lo'')
   \<and> load_config (\<lambda>p. Inr cfg_two) DEFAULT_CONFIGURATION_PATH = Inl (KeyError ''authors'')"
proof -
  have h: "''lo'' \<in> set (sections cfg_two)" "''lo'' \<noteq> ''bot''"
    "''category'' \<in> dom (options cfg_two ''lo'')"
    "''chat_id'' \<in> dom (options cfg_two ''lo'')"
    "''buzzwords'' \<in> dom (options cfg_two ''lo'')"
    "''authors'' \<notin> dom (options cfg_two ''lo'')"
    by (simp_all add: cfg_two_def)
  have g: "''bot'' \<in> set (sections cfg_two) \<and> readable cfg_two ''bot'' ''token''
      \<and> (\<forall>t \<in> set (sections cfg_two). t \<noteq> ''bot'' \<longrightarrow>
            readable cfg_two t ''category'' \<and> readable cfg_two t ''chat_id''
            \<and> readable cfg_two t ''buzzwords''
            \<and> options cfg_two t ''authors'' \<noteq> Some BadInterpolation)"
    by (simp add: cfg_two_def readable_def)
  have "load_config (\<lambda>p. Inr cfg_two) DEFAULT_CONFIGURATION_PATH = Inl (KeyError ''authors'')"
    by (rule authors_mandatory [of "\<lambda>p. Inr cfg_two" DEFAULT_CONFIGURATION_PATH cfg_two "''lo''",
      OF refl h, THEN conjunct2, THEN mp, OF g])
  with h show ?thesis by simp
qed

text \<open>
  An update section with the three named options and no \<open>authors\<close>, and an exception
  that is not the one of a lookup: the interpolation error of \<open>buzzwords\<close>, which is
  read before \<open>authors\<close>, and the exception for the missing section \<open>bot\<close>.
\<close>

theorem other_exception_before_authors:
  "''ml'' \<in> set (sections cfg_percent_no_authors)
   \<and> ''category'' \<in> dom (options cfg_percent_no_authors ''ml'')
   \<and> ''chat_id'' \<in> dom (options cfg_percent_no_authors ''ml'')
   \<and> ''buzzwords'' \<in> dom (options cfg_percent_no_authors ''ml'')
   \<and> ''authors'' \<notin> dom (options cfg_percent_no_authors ''ml'')
   \<and> load_config (\<lambda>p. Inr cfg_percent_no_authors) DEFAULT_CONFIGURATION_PATH
       = Inl (InterpolationError ''buzzwords'')
   \<and> ''ml'' \<in> set (sections cfg_only_ml)
   \<and> ''category'' \<in> dom (options cfg_only_ml ''ml'')
   \<and> ''chat_id'' \<in> dom (options cfg_only_ml ''ml'')
   \<and> ''buzzwords'' \<in> dom (options cfg_only_ml ''ml'')
   \<and> ''authors'' \<notin> dom (options cfg_only_ml ''ml'')
   \<and> load_config (\<lambda>p. Inr cfg_only_ml) DEFAULT_CONFIGURATION_PATH = Inl NoBotSection"
  by (simp add: load_config_def cfg_percent_no_authors_def cfg_only_ml_def getitem_def)

text \<open>
  C8. On a Saturday and on a Sunday the process prints its notice and ends with exit
  code 0: the configuration is not read, nothing is fetched and no message is sent,
  whatever the configuration and the feed are. On the five other days the process
  runs \<open>main\<close>.
\<close>

theorem weekend_skip:
  "(day = Saturday \<or> day = Sunday \<longrightarrow>
      script pr pra feed fs tb day a w =
        (0, w\<lparr>stdout := stdout w @ [PStr ''C'est le week-end!'']\<rparr>))
   \<and> (day \<noteq> Saturday \<and> day \<noteq> Sunday \<longrightarrow>
      script pr pra feed fs tb day a w =
        (case main pr pra feed fs tb a w of
           (Inl e, w') \<Rightarrow> (1, w') | (Inr u, w') \<Rightarrow> (0, w')))"
  by (cases day) (simp_all add: script_def print_out_def weekend_notice_def)

text \<open>
  Both days, with the complete configuration and a feed full of matches on Saturday,
  and with a configuration that does not load on Sunday.
\<close>

theorem weekend_skip_witness:
  "script exact_ratio exact_ratio_authors feed1 (\<lambda>p. Inr cfg_full) (\<lambda>t. Inr ())
     Saturday args0 w0 =
     (0, \<lparr>fetches = [], sent = [], stdout = [PStr ''C'est le week-end!'']\<rparr>)
   \<and> script exact_ratio exact_ratio_authors feed1 (\<lambda>p. Inr cfg_no_bot) (\<lambda>t. Inr ())
     Sunday args0 w0 =
     (0, \<lparr>fetches = [], sent = [], stdout = [PStr ''C'est le week-end!'']\<rparr>)"
proof -
  have w: "w0\<lparr>stdout := stdout w0 @ [PStr ''C'est le week-end!'']\<rparr> =
      \<lparr>fetches = [], sent = [], stdout = [PStr ''C'est le week-end!'']\<rparr>"
    by (simp add: w0_def)
  have a: "script exact_ratio exact_ratio_authors feed1 (\<lambda>p. Inr cfg_full) (\<lambda>t. Inr ())
        Saturday args0 w0 =
        (0, w0\<lparr>stdout := stdout w0 @ [PStr ''C'est le week-end!'']\<rparr>)"
    by (rule weekend_skip [of Saturday exact_ratio exact_ratio_authors feed1
      "\<lambda>p. Inr cfg_full" "\<lambda>t. Inr ()" args0 w0, THEN conjunct1, THEN mp, OF disjI1, OF refl])
  have b: "script exact_ratio exact_ratio_authors feed1 (\<lambda>p. Inr cfg_no_bot) (\<lambda>t. Inr ())
        Sunday args0 w0 =
        (0, w0\<lparr>stdout := stdout w0 @ [PStr ''C'est le week-end!'']\<rparr>)"
    by (rule weekend_skip [of Sunday exact_ratio exact_ratio_authors feed1
      "\<lambda>p. Inr cfg_no_bot" "\<lambda>t. Inr ()" args0 w0, THEN conjunct1, THEN mp, OF disjI2, OF refl])
  from a b show ?thesis
    by (simp only: w)
qed

end
